theory Spec2Isabelle
  imports Main "HOL-Library.Char_ord" "HOL-Library.List_Lexorder" "HOL-Library.Multiset"
begin

section \<open>The Go syntax tree, as go/ast has it\<close>

text \<open>
  The processor works on the tree that go/parser returns. The tree is modelled by one
  datatype per go/ast node struct or interface: \<open>Expr\<close>, \<open>Stmt\<close>, \<open>Spec\<close> and
  \<open>Decl\<close> are the interfaces, \<open>Field\<close>, \<open>FieldList\<close>, \<open>FuncType\<close>, \<open>BlockStmt\<close>
  and \<open>ImportSpec\<close> are the structs that other nodes point to with a fixed type. A
  pointer that go/ast allows to be nil is an \<open>option\<close>. An identifier (\<open>*ast.Ident\<close>)
  in a name position is its string; a basic literal in a fixed position is its source text.
  Positions, comment groups and the resolver's scope objects are left out: none of the
  three callbacks of the processor reads them, and a comment group has no field,
  declaration or function below it. The type parameter lists of a type spec and of a
  function type are there (nil for a declaration that is not generic). Of the expressions and statements of go/ast the datatypes have the ones
  below; the others (index, slice, type assertion and key-value expressions, channel
  types, the loop, switch, select, go, defer, labeled, branch, send and
  increment statements) are walked in the same way and have only expressions, statements
  and blocks as their children, like the ones below.
\<close>

datatype Token = token_IMPORT | token_CONST | token_TYPE | token_VAR

datatype ImportSpec = ImportSpec "string option" string

datatype Expr =
    Ident string
  | BasicLit string
  | SelectorExpr Expr string
  | StarExpr Expr
  | ParenExpr Expr
  | UnaryExpr string Expr
  | BinaryExpr Expr string Expr
  | CallExpr Expr "Expr list"
  | CompositeLit "Expr option" "Expr list"
  | ArrayType "Expr option" Expr
  | MapType Expr Expr
  | StructType FieldList
  | InterfaceType FieldList
  | FuncTypeExpr FuncType
  | FuncLit FuncType BlockStmt
and Field = Field "string list" "Expr option" "string option"
and FieldList = FieldList "Field list"
and FuncType = FuncType "FieldList option" "FieldList option" "FieldList option"
and BlockStmt = BlockStmt "Stmt list"
and Stmt =
    ExprStmt Expr
  | AssignStmt "Expr list" string "Expr list"
  | ReturnStmt "Expr list"
  | DeclStmt Decl
  | BlockStmtStmt BlockStmt
  | IfStmt "Stmt option" Expr BlockStmt "Stmt option"
and Spec =
    ImportSpecSpec ImportSpec
  | ValueSpec "string list" "Expr option" "Expr list"
  | TypeSpec string "FieldList option" Expr
and Decl =
    GenDecl Token "Spec list"
  | FuncDecl "FieldList option" string FuncType "BlockStmt option"

text \<open>
  \<open>ast.File\<close>: the package name, the top-level declarations, and the imports of the
  file (go/parser fills \<open>Imports\<close> with the import specs of the declarations).
\<close>

record File =
  Name :: string
  Decls :: "Decl list"
  Imports :: "ImportSpec list"

text \<open>\<open>ast.Node\<close>: what a visitor is called with; \<open>NodeNil\<close> is the nil node.\<close>

datatype Node =
    NodeNil
  | NodeFile File
  | NodeDecl Decl
  | NodeSpec Spec
  | NodeStmt Stmt
  | NodeExpr Expr
  | NodeField Field
  | NodeFieldList FieldList

subsection \<open>ast.Walk and ast.Inspect\<close>

text \<open>
  The children of a node, in the order in which \<open>ast.Walk\<close> visits them (the \<open>switch\<close>
  of go/ast/walk.go): a nil pointer is skipped, a list is visited element by element.
\<close>

definition optNode :: "('a \<Rightarrow> Node) \<Rightarrow> 'a option \<Rightarrow> Node list" where
  "optNode mk x = (case x of None \<Rightarrow> [] | Some y \<Rightarrow> [mk y])"

definition identNodes :: "string list \<Rightarrow> Node list" where
  "identNodes names = map (\<lambda>n. NodeExpr (Ident n)) names"

fun children :: "Node \<Rightarrow> Node list" where
  "children NodeNil = []"
| "children (NodeFile f) = NodeExpr (Ident (Name f)) # map NodeDecl (Decls f)"
| "children (NodeDecl (GenDecl tok specs)) = map NodeSpec specs"
| "children (NodeDecl (FuncDecl recv name typ body)) =
     optNode NodeFieldList recv @ [NodeExpr (Ident name), NodeExpr (FuncTypeExpr typ)]
     @ optNode (\<lambda>b. NodeStmt (BlockStmtStmt b)) body"
| "children (NodeSpec (ImportSpecSpec (ImportSpec name path))) =
     optNode (\<lambda>n. NodeExpr (Ident n)) name @ [NodeExpr (BasicLit path)]"
| "children (NodeSpec (ValueSpec names typ vals)) =
     identNodes names @ optNode NodeExpr typ @ map NodeExpr vals"
| "children (NodeSpec (TypeSpec name tparams typ)) =
     [NodeExpr (Ident name)] @ optNode NodeFieldList tparams @ [NodeExpr typ]"
| "children (NodeStmt (ExprStmt x)) = [NodeExpr x]"
| "children (NodeStmt (AssignStmt lhs tok rhs)) = map NodeExpr lhs @ map NodeExpr rhs"
| "children (NodeStmt (ReturnStmt results)) = map NodeExpr results"
| "children (NodeStmt (DeclStmt d)) = [NodeDecl d]"
| "children (NodeStmt (BlockStmtStmt (BlockStmt list))) = map NodeStmt list"
| "children (NodeStmt (IfStmt init cond body els)) =
     optNode NodeStmt init @ [NodeExpr cond, NodeStmt (BlockStmtStmt body)]
     @ optNode NodeStmt els"
| "children (NodeExpr (Ident n)) = []"
| "children (NodeExpr (BasicLit v)) = []"
| "children (NodeExpr (SelectorExpr x sel)) = [NodeExpr x, NodeExpr (Ident sel)]"
| "children (NodeExpr (StarExpr x)) = [NodeExpr x]"
| "children (NodeExpr (ParenExpr x)) = [NodeExpr x]"
| "children (NodeExpr (UnaryExpr op x)) = [NodeExpr x]"
| "children (NodeExpr (BinaryExpr x op y)) = [NodeExpr x, NodeExpr y]"
| "children (NodeExpr (CallExpr fn args)) = NodeExpr fn # map NodeExpr args"
| "children (NodeExpr (CompositeLit typ elts)) = optNode NodeExpr typ @ map NodeExpr elts"
| "children (NodeExpr (ArrayType len elt)) = optNode NodeExpr len @ [NodeExpr elt]"
| "children (NodeExpr (MapType k v)) = [NodeExpr k, NodeExpr v]"
| "children (NodeExpr (StructType fl)) = [NodeFieldList fl]"
| "children (NodeExpr (InterfaceType fl)) = [NodeFieldList fl]"
| "children (NodeExpr (FuncTypeExpr (FuncType tparams params results))) =
     optNode NodeFieldList tparams @ optNode NodeFieldList params
     @ optNode NodeFieldList results"
| "children (NodeExpr (FuncLit typ body)) =
     [NodeExpr (FuncTypeExpr typ), NodeStmt (BlockStmtStmt body)]"
| "children (NodeField (Field names typ tag)) =
     identNodes names @ optNode NodeExpr typ @ optNode (\<lambda>t. NodeExpr (BasicLit t)) tag"
| "children (NodeFieldList (FieldList list)) = map NodeField list"

text \<open>
  A measure under which every child is smaller than its parent. A function type and a
  block are counted as the structs they are, whichever interface they are seen through.
\<close>

fun node_size :: "Node \<Rightarrow> nat" where
  "node_size NodeNil = 0"
| "node_size (NodeFile f) = 2 * size_list size (Decls f) + 3"
| "node_size (NodeDecl d) = 2 * size d + 2"
| "node_size (NodeSpec s) = 2 * size s + 2"
| "node_size (NodeStmt (BlockStmtStmt b)) = 2 * size b + 2"
| "node_size (NodeStmt s) = 2 * size s + 2"
| "node_size (NodeExpr (FuncTypeExpr t)) = 2 * size t + 1"
| "node_size (NodeExpr e) = 2 * size e + 1"
| "node_size (NodeField f) = 2 * size f + 2"
| "node_size (NodeFieldList fl) = 2 * size fl + 2"

lemma size_list_member: "x \<in> set xs \<Longrightarrow> size x < Suc (size_list size xs)"
  by (induction xs) auto

lemma node_size_Expr_less: "2 * size e + 1 < b \<Longrightarrow> node_size (NodeExpr e) < b"
  by (cases e) simp_all

lemma node_size_Stmt_less: "2 * size s + 2 < b \<Longrightarrow> node_size (NodeStmt s) < b"
  by (cases s) simp_all

lemma size_FuncType_pos: "0 < size (t :: FuncType)"
  by (cases t) simp

lemma size_BlockStmt_pos: "0 < size (b :: BlockStmt)"
  by (cases b) simp

lemma children_smaller:
  assumes "c \<in> set (children n)"
  shows "node_size c < node_size n"
  using assms
proof (cases n rule: children.cases)
  case (28 ft blk)
  with assms show ?thesis
    using size_FuncType_pos [of ft] size_BlockStmt_pos [of blk] by auto
qed (auto simp: optNode_def identNodes_def split: option.splits
       dest!: size_list_member intro: node_size_Expr_less node_size_Stmt_less)

text \<open>
  \<open>ast.Inspect(node, f)\<close> is \<open>ast.Walk\<close> with the visitor made of \<open>f\<close>: it calls
  \<open>f(node)\<close>; if that returns true it walks the children of the node in order and then
  calls \<open>f(nil)\<close>, whose result is dropped; if it returns false the children are skipped.
  The callbacks of the processor are closures over a variable they update, so a callback
  is a function from the node and the captured state to its boolean result and the new
  state, and the walk threads the state.
\<close>

function Inspect :: "(Node \<Rightarrow> 's \<Rightarrow> bool \<times> 's) \<Rightarrow> Node \<Rightarrow> 's \<Rightarrow> 's" where
  "Inspect f n s =
     (if fst (f n s)
      then snd (f NodeNil (fold (Inspect f) (children n) (snd (f n s))))
      else snd (f n s))"
  by pat_completeness auto
termination
  by (relation "measure (\<lambda>(f, n, s). node_size n)") (auto dest: children_smaller)

declare Inspect.simps [simp del]

section \<open>The Go library functions on strings and paths that the processor calls\<close>

text \<open>
  A Go string is a sequence of bytes, so it is a \<open>string\<close> here. \<open>strings.Trim\<close>
  removes the leading and the trailing bytes that are in the cutset (the processor's cutset
  is the one-byte double quote), \<open>strings.TrimSuffix\<close> removes the suffix if it is there,
  and \<open>filepath.Base\<close> (with \<open>/\<close> as the separator) returns the last element of a
  path: trailing slashes are dropped first, the empty path gives a dot and a path of
  slashes only gives a slash.
\<close>

definition Trim :: "string \<Rightarrow> string \<Rightarrow> string" where
  "Trim s cutset =
     rev (dropWhile (\<lambda>c. c \<in> set cutset) (rev (dropWhile (\<lambda>c. c \<in> set cutset) s)))"

definition HasSuffix :: "string \<Rightarrow> string \<Rightarrow> bool" where
  "HasSuffix s suffix =
     (length suffix \<le> length s \<and> drop (length s - length suffix) s = suffix)"

definition TrimSuffix :: "string \<Rightarrow> string \<Rightarrow> string" where
  "TrimSuffix s suffix =
     (if HasSuffix s suffix then take (length s - length suffix) s else s)"

definition IsPathSeparator :: "char \<Rightarrow> bool" where
  "IsPathSeparator c = (c = CHR ''/'')"

definition Base :: "string \<Rightarrow> string" where
  "Base path =
     (if path = [] then ''.''
      else let stripped = rev (dropWhile IsPathSeparator (rev path));
               elem = rev (takeWhile (\<lambda>c. \<not> IsPathSeparator c) (rev stripped))
           in if elem = [] then ''/'' else elem)"

section \<open>The record-file detector\<close>

text \<open>The loop of \<open>hasFlatBuffersImport\<close> over \<open>file.Imports\<close>, with its early return.\<close>

fun hasFlatBuffersImport_range :: "ImportSpec list \<Rightarrow> bool" where
  "hasFlatBuffersImport_range [] = False"
| "hasFlatBuffersImport_range (ImportSpec name path # rest) =
     (if Trim path [CHR 0x22] = ''github.com/google/flatbuffers/go'' then True
      else hasFlatBuffersImport_range rest)"

definition hasFlatBuffersImport :: "File \<Rightarrow> bool" where
  "hasFlatBuffersImport file = hasFlatBuffersImport_range (Imports file)"

text \<open>
  The callback of \<open>usesFlatBuffersTable\<close>; the captured variable is \<open>result\<close>. The three
  failed type assertions (not a field, type not a selector, selector base not an
  identifier) return true and leave \<open>result\<close> alone, as does a selector with other names.
\<close>

fun usesFlatBuffersTable_func :: "Node \<Rightarrow> bool \<Rightarrow> bool \<times> bool" where
  "usesFlatBuffersTable_func (NodeField (Field names (Some (SelectorExpr (Ident x) sel)) tag))
       result =
     (if x = ''flatbuffers'' \<and> sel = ''Table'' then (False, True) else (True, result))"
| "usesFlatBuffersTable_func n result = (True, result)"

definition usesFlatBuffersTable :: "File \<Rightarrow> bool" where
  "usesFlatBuffersTable file = Inspect usesFlatBuffersTable_func (NodeFile file) False"

definition isFlatBufferFile :: "File \<Rightarrow> bool" where
  "isFlatBufferFile file =
     (if \<not> hasFlatBuffersImport file then False else usesFlatBuffersTable file)"

section \<open>The patch step\<close>

text \<open>
  The callback of \<open>hasNameMethod\<close>; the captured variable is \<open>methodFound\<close>. It returns
  false at nil and at every function declaration, so a function body is never entered.
\<close>

fun hasNameMethod_func :: "Node \<Rightarrow> bool \<Rightarrow> bool \<times> bool" where
  "hasNameMethod_func NodeNil methodFound = (False, methodFound)"
| "hasNameMethod_func (NodeDecl (FuncDecl recv name ft body)) methodFound =
     (if name = ''Name'' then (False, True) else (False, methodFound))"
| "hasNameMethod_func n methodFound = (True, methodFound)"

definition hasNameMethod :: "File \<Rightarrow> bool" where
  "hasNameMethod tree = Inspect hasNameMethod_func (NodeFile tree) False"

text \<open>
  The function declaration that \<open>patchAST\<close> builds for a type name: receiver
  \<open>*name\<close> without a receiver name, the name \<open>Name\<close>, no type parameters, an empty
  parameter list, one result
  of type \<open>string\<close>, and a body of one return statement. The returned expression is the
  identifier node that \<open>ast.NewIdent\<close> makes of the type name between double quotes; the
  printer writes an identifier as its name, so the printed body is
  \<open>return "name"\<close>.
\<close>

definition funcDecl :: "string \<Rightarrow> Decl" where
  "funcDecl name =
     FuncDecl (Some (FieldList [Field [] (Some (StarExpr (Ident name))) None]))
       ''Name''
       (FuncType None (Some (FieldList []))
          (Some (FieldList [Field [] (Some (Ident ''string'')) None])))
       (Some (BlockStmt [ReturnStmt [Ident ([CHR 0x22] @ name @ [CHR 0x22])]]))"

text \<open>
  The loop over \<open>genDecl.Specs\<close>: a spec that is not a type spec, or whose type is not
  a struct type node, is skipped; for the others the new declaration is appended to
  \<open>tree.Decls\<close>. The captured variable of the callback is the tree.
\<close>

fun patchAST_range :: "Spec list \<Rightarrow> File \<Rightarrow> File" where
  "patchAST_range [] tree = tree"
| "patchAST_range (TypeSpec name tparams (StructType fl) # rest) tree =
     patchAST_range rest (tree\<lparr>Decls := Decls tree @ [funcDecl name]\<rparr>)"
| "patchAST_range (spec # rest) tree = patchAST_range rest tree"

fun patchAST_func :: "Node \<Rightarrow> File \<Rightarrow> bool \<times> File" where
  "patchAST_func (NodeDecl (GenDecl tok specs)) tree =
     (if tok \<noteq> token_TYPE then (True, tree) else (True, patchAST_range specs tree))"
| "patchAST_func n tree = (True, tree)"

text \<open>
  \<open>patchAST\<close> returns its error (always nil) and leaves the tree mutated; the model
  returns both. The walk runs over the declarations the tree had when it started: Go's
  \<open>range\<close> reads the slice once, so the appended declarations are not visited.
\<close>

definition patchAST :: "File \<Rightarrow> string option \<times> File" where
  "patchAST tree =
     (if hasNameMethod tree then (None, tree)
      else (None, Inspect patchAST_func (NodeFile tree) tree))"

section \<open>Processing one file\<close>

text \<open>
  The errors the processor returns. \<open>ErrFlatBuffersNotImported\<close> is the package's
  sentinel error value; the others are the \<open>fmt.Errorf\<close> wrappers of the source, each
  with the message of the error it wraps (the parse error also carries the file path).
\<close>

datatype error =
    ErrFlatBuffersNotImported
  | FailedToParseFile string string
  | FailedToPatchAST string
  | FailedToCreateFile string
  | FailedToPrintAST string
  | FailedToParseTemplate string
  | FailedToExecuteTemplate string

record GoProcessor =
  flatbuffers :: "string list"

definition NewGoProcessor :: GoProcessor where
  "NewGoProcessor = \<lparr>flatbuffers = []\<rparr>"

definition Extension :: string where
  "Extension = ''.go''"

definition FlatDataHelperFileName :: string where
  "FlatDataHelperFileName = ''flatdatas_helper.go''"

text \<open>
  The file system is a map from paths to contents. What the processor calls outside
  the repository is a parameter of the model:
  \<^item> \<open>parser_ParseFile\<close>: \<open>parser.ParseFile\<close> on the file at a path, which reads the file
    and returns the tree or the message of a read or syntax error;
  \<^item> \<open>os_Create\<close>: the message with which \<open>os.Create\<close> refuses a path, if it does;
    otherwise the file exists and is empty afterwards;
  \<^item> \<open>printer_Fprint\<close>: the text \<open>printer.Fprint\<close> produces for a tree;
  \<^item> \<open>write_fault\<close>: for a path and the bytes sent to it, the number of bytes that
    reach the file and the message of the error, if writing fails; otherwise all bytes
    reach the file;
  \<^item> \<open>filepath_Join\<close>: \<open>filepath.Join\<close> of a directory and a file name.
\<close>

type_synonym files = "string \<rightharpoonup> string"

record Platform =
  parser_ParseFile :: "files \<Rightarrow> string \<Rightarrow> string + File"
  os_Create :: "files \<Rightarrow> string \<Rightarrow> string option"
  printer_Fprint :: "File \<Rightarrow> string"
  write_fault :: "string \<Rightarrow> string \<Rightarrow> (nat \<times> string) option"
  filepath_Join :: "string \<Rightarrow> string \<Rightarrow> string"

text \<open>
  Writing bytes to a created (empty) file: the error if any, and the file system after.
\<close>

definition write_file :: "Platform \<Rightarrow> files \<Rightarrow> string \<Rightarrow> string \<Rightarrow> string option \<times> files" where
  "write_file pf fs path bytes =
     (case write_fault pf path bytes of
        None \<Rightarrow> (None, fs(path \<mapsto> bytes))
      | Some (k, err) \<Rightarrow> (Some err, fs(path \<mapsto> take k bytes)))"

text \<open>
  \<open>ProcessFile\<close>: the receiver's list and the file system are the state; the result is
  the returned error (\<open>None\<close> for nil) and the state after. The deferred \<open>f.Close()\<close>
  has its result dropped by the source.
\<close>

definition ProcessFile ::
  "Platform \<Rightarrow> string \<Rightarrow> GoProcessor \<times> files \<Rightarrow> error option \<times> GoProcessor \<times> files" where
  "ProcessFile pf filePath st =
     (case st of (p, fs) \<Rightarrow>
      (case parser_ParseFile pf fs filePath of
         Inl err \<Rightarrow> (Some (FailedToParseFile filePath err), p, fs)
       | Inr tree \<Rightarrow>
           if \<not> isFlatBufferFile tree then (Some ErrFlatBuffersNotImported, p, fs)
           else
             let p1 = p\<lparr>flatbuffers :=
                        flatbuffers p @ [TrimSuffix (Base filePath) Extension]\<rparr>
             in (case patchAST tree of
                   (Some patchErr, tree1) \<Rightarrow> (Some (FailedToPatchAST patchErr), p1, fs)
                 | (None, tree1) \<Rightarrow>
                     (case os_Create pf fs filePath of
                        Some err \<Rightarrow> (Some (FailedToCreateFile err), p1, fs)
                      | None \<Rightarrow>
                          (case write_file pf fs filePath (printer_Fprint pf tree1) of
                             (Some writeErr, fs1) \<Rightarrow> (Some (FailedToPrintAST writeErr), p1, fs1)
                           | (None, fs1) \<Rightarrow> (None, p1, fs1))))))"

section \<open>The registry file\<close>

text \<open>
  The text that executing the template \<open>flatbufferCode\<close> on a list of names writes.
  The template's \<open>{{- range . }}\<close> and \<open>{{- end }}\<close> trim the white space before them,
  so each name contributes a newline, a tab and its map entry, and the text before the
  range ends at the opening brace. text/template writes a string value as it is.
\<close>

definition flatbufferCode_header :: string where
  "flatbufferCode_header =
     ''package flatdata'' @ [CHR 0x0A, CHR 0x0A] @
     ''import ('' @ [CHR 0x0A, CHR 0x09, CHR 0x22] @ ''reflect'' @ [CHR 0x22, CHR 0x0A] @
     '')'' @ [CHR 0x0A, CHR 0x0A] @
     ''var fbs = map[string]reflect.Type{''"

definition flatbufferCode_entry :: "string \<Rightarrow> string" where
  "flatbufferCode_entry name =
     [CHR 0x0A, CHR 0x09, CHR 0x22] @ name @ [CHR 0x22] @
     '': reflect.TypeOf((*'' @ name @ '')(nil)).Elem(),''"

definition flatbufferCode_footer :: string where
  "flatbufferCode_footer =
     [CHR 0x0A] @ ''}'' @ [CHR 0x0A, CHR 0x0A] @
     ''func GetFlatDataByName(name string) any {'' @ [CHR 0x0A, CHR 0x09] @
     ''if data, ok := fbs[name]; ok {'' @ [CHR 0x0A, CHR 0x09, CHR 0x09] @
     ''return reflect.New(data).Interface()'' @ [CHR 0x0A, CHR 0x09] @
     ''}'' @ [CHR 0x0A, CHR 0x09] @
     ''return nil'' @ [CHR 0x0A] @
     ''}'' @ [CHR 0x0A]"

definition flatbufferCode :: "string list \<Rightarrow> string" where
  "flatbufferCode names =
     flatbufferCode_header @ concat (map flatbufferCode_entry names) @ flatbufferCode_footer"

text \<open>
  \<open>PostProcess\<close>: \<open>sort.Strings\<close> sorts the receiver's list in place, in increasing
  byte-wise lexicographic order, which is the order of \<open>sort\<close> on strings here. Parsing
  the constant template text does not fail, so that error return has no branch. When
  \<open>os.Create\<close> fails the list is returned unsorted, as in the source.
\<close>

definition PostProcess ::
  "Platform \<Rightarrow> string \<Rightarrow> GoProcessor \<times> files \<Rightarrow> error option \<times> GoProcessor \<times> files" where
  "PostProcess pf outputDir st =
     (case st of (p, fs) \<Rightarrow>
      let path = filepath_Join pf outputDir FlatDataHelperFileName
      in (case os_Create pf fs path of
            Some osErr \<Rightarrow> (Some (FailedToCreateFile osErr), p, fs)
          | None \<Rightarrow>
              let p1 = p\<lparr>flatbuffers := sort (flatbuffers p)\<rparr>
              in (case write_file pf fs path (flatbufferCode (flatbuffers p1)) of
                    (Some executeErr, fs1) \<Rightarrow> (Some (FailedToExecuteTemplate executeErr), p1, fs1)
                  | (None, fs1) \<Rightarrow> (None, p1, fs1))))"

section \<open>Notions the properties are stated with\<close>

text \<open>
  The nodes of a tree, the node itself first and then the nodes below each child in
  order: every node that a walk which never stops can reach.
\<close>

function subtree :: "Node \<Rightarrow> Node list" where
  "subtree n = n # concat (map subtree (children n))"
  by pat_completeness auto
termination
  by (relation "measure node_size") (auto dest: children_smaller)

declare subtree.simps [simp del]











text \<open>A function declaration named \<open>Name\<close>, with or without a receiver.\<close>

fun isNameFunc :: "Decl \<Rightarrow> bool" where
  "isNameFunc (FuncDecl recv name ft body) = (name = ''Name'')"
| "isNameFunc d = False"

text \<open>
  The names of the type specs of a declaration list whose type is a struct type, the
  struct type names a node declares itself, and those declared anywhere in a tree, at
  the top level or below it, in the order of the walk.
\<close>

fun structTypeNames :: "Spec list \<Rightarrow> string list" where
  "structTypeNames [] = []"
| "structTypeNames (TypeSpec name tparams (StructType fl) # rest) =
     name # structTypeNames rest"
| "structTypeNames (spec # rest) = structTypeNames rest"

fun typeDeclNames :: "Node \<Rightarrow> string list" where
  "typeDeclNames (NodeDecl (GenDecl tok specs)) =
     (if tok = token_TYPE then structTypeNames specs else [])"
| "typeDeclNames n = []"

definition allStructTypeNames :: "Node \<Rightarrow> string list" where
  "allStructTypeNames n = concat (map typeDeclNames (subtree n))"

definition topLevelStructTypeNames :: "File \<Rightarrow> string list" where
  "topLevelStructTypeNames file = concat (map (\<lambda>d. typeDeclNames (NodeDecl d)) (Decls file))"

text \<open>
  Reading a registry text back: its lines, and the key of a line that is a map entry,
  that is a tab, a key between double quotes, and the type handle of the type of the
  same name, \<open>reflect.TypeOf((*key)(nil)).Elem()\<close>, with its comma. The keys of a
  registry text are the keys of its entry lines, in the order of the lines.
\<close>

fun splitLines :: "string \<Rightarrow> string list" where
  "splitLines [] = [[]]"
| "splitLines (c # cs) =
     (if c = CHR 0x0A then [] # splitLines cs
      else (case splitLines cs of
              [] \<Rightarrow> [[c]]
            | line # lines \<Rightarrow> (c # line) # lines))"

definition entryLine :: "string \<Rightarrow> string" where
  "entryLine key =
     [CHR 0x09, CHR 0x22] @ key @ [CHR 0x22] @
     '': reflect.TypeOf((*'' @ key @ '')(nil)).Elem(),''"

definition entryKey :: "string \<Rightarrow> string option" where
  "entryKey line =
     (let key = takeWhile (\<lambda>c. c \<noteq> CHR 0x22) (drop 2 line)
      in if line = entryLine key then Some key else None)"

definition registryKeys :: "string \<Rightarrow> string list" where
  "registryKeys text = List.map_filter entryKey (splitLines text)"

text \<open>
  Names that can stand between the double quotes of a key and on one line: no double
  quote and no newline in them.
\<close>

definition plainNames :: "string list \<Rightarrow> bool" where
  "plainNames names =
     list_all (\<lambda>name. CHR 0x22 \<notin> set name \<and> CHR 0x0A \<notin> set name) names"

text \<open>
  The parser returned a tree for the file at a path and the detector said no to it.
\<close>

definition rejected :: "Platform \<Rightarrow> files \<Rightarrow> string \<Rightarrow> bool" where
  "rejected pf fs filePath =
     (case parser_ParseFile pf fs filePath of
        Inl err \<Rightarrow> False
      | Inr tree \<Rightarrow> \<not> isFlatBufferFile tree)"

section \<open>Sample inputs\<close>

text \<open>
  \<open>Item.go\<close>: the import of the runtime-support module under the name \<open>flatbuffers\<close>
  and \<open>type Item struct { _tab flatbuffers.Table }\<close>.
\<close>

definition flatbuffersImport :: ImportSpec where
  "flatbuffersImport =
     ImportSpec (Some ''flatbuffers'')
       ([CHR 0x22] @ ''github.com/google/flatbuffers/go'' @ [CHR 0x22])"

definition itemType :: Decl where
  "itemType =
     GenDecl token_TYPE
       [TypeSpec ''Item'' None
          (StructType (FieldList
             [Field [''_tab''] (Some (SelectorExpr (Ident ''flatbuffers'') ''Table'')) None]))]"

definition itemFile :: File where
  "itemFile =
     \<lparr>Name = ''flatdata'',
      Decls = [GenDecl token_IMPORT [ImportSpecSpec flatbuffersImport], itemType],
      Imports = [flatbuffersImport]\<rparr>"

text \<open>The same file without the import, and a file with the import and no field.\<close>

definition tableOnlyFile :: File where
  "tableOnlyFile = \<lparr>Name = ''flatdata'', Decls = [itemType], Imports = []\<rparr>"

definition importOnlyFile :: File where
  "importOnlyFile =
     \<lparr>Name = ''flatdata'',
      Decls = [GenDecl token_IMPORT [ImportSpecSpec flatbuffersImport],
               GenDecl token_TYPE [TypeSpec ''Helper'' None (StructType (FieldList []))]],
      Imports = [flatbuffersImport]\<rparr>"

text \<open>
  \<open>Vec3.go\<close>, as the schema compiler writes a fixed-size struct: the import,
  \<open>type Vec3 struct { _tab flatbuffers.Struct }\<close> and the method
  \<open>func (rcv *Vec3) Table() flatbuffers.Table { return rcv._tab.Table }\<close>. The only
  field node of type \<open>flatbuffers.Table\<close> is the result of the method.
\<close>

definition vec3File :: File where
  "vec3File =
     \<lparr>Name = ''flatdata'',
      Decls =
        [GenDecl token_IMPORT [ImportSpecSpec flatbuffersImport],
         GenDecl token_TYPE
           [TypeSpec ''Vec3'' None
              (StructType (FieldList
                 [Field [''_tab''] (Some (SelectorExpr (Ident ''flatbuffers'') ''Struct''))
                    None]))],
         FuncDecl (Some (FieldList [Field [''rcv''] (Some (StarExpr (Ident ''Vec3''))) None]))
           ''Table''
           (FuncType None (Some (FieldList []))
              (Some (FieldList
                 [Field [] (Some (SelectorExpr (Ident ''flatbuffers'') ''Table'')) None])))
           (Some (BlockStmt
              [ReturnStmt [SelectorExpr (SelectorExpr (Ident ''rcv'') ''_tab'') ''Table'']]))],
      Imports = [flatbuffersImport]\<rparr>"

text \<open>
  \<open>Item.go\<close> with the import path written as a raw string, between back quotes.
\<close>

definition rawImport :: ImportSpec where
  "rawImport =
     ImportSpec (Some ''flatbuffers'')
       ([CHR 0x60] @ ''github.com/google/flatbuffers/go'' @ [CHR 0x60])"

definition rawImportFile :: File where
  "rawImportFile =
     \<lparr>Name = ''flatdata'',
      Decls = [GenDecl token_IMPORT [ImportSpecSpec rawImport], itemType],
      Imports = [rawImport]\<rparr>"

text \<open>
  \<open>Item.go\<close> after the patch step: \<open>func (*Item) Name() string { return "Item" }\<close>
  is its last declaration.
\<close>

definition patchedItemFile :: File where
  "patchedItemFile = itemFile\<lparr>Decls := Decls itemFile @ [funcDecl ''Item'']\<rparr>"

text \<open>
  \<open>Item.go\<close> with a plain function \<open>func Name() string { return "x" }\<close>, which has no
  receiver, after the type.
\<close>

definition plainNameFunc :: Decl where
  "plainNameFunc =
     FuncDecl None ''Name''
       (FuncType None (Some (FieldList []))
          (Some (FieldList [Field [] (Some (Ident ''string'')) None])))
       (Some (BlockStmt [ReturnStmt [BasicLit ([CHR 0x22] @ ''x'' @ [CHR 0x22])]]))"

definition plainNameFile :: File where
  "plainNameFile = itemFile\<lparr>Decls := Decls itemFile @ [plainNameFunc]\<rparr>"

text \<open>
  \<open>Item.go\<close> with a function that declares a struct type of its own, also called
  \<open>Item\<close>, in its body: \<open>func helper() { type Item struct{} }\<close>.
\<close>

definition helperFunc :: Decl where
  "helperFunc =
     FuncDecl None ''helper'' (FuncType None (Some (FieldList [])) None)
       (Some (BlockStmt
          [DeclStmt
             (GenDecl token_TYPE [TypeSpec ''Item'' None (StructType (FieldList []))])]))"

definition localTypeFile :: File where
  "localTypeFile = itemFile\<lparr>Decls := Decls itemFile @ [helperFunc]\<rparr>"

text \<open>
  Platforms for the sample runs: the parser finds the given tree in every file that
  exists, the printer output is a fixed text, and creating and writing succeed; then one
  whose \<open>os.Create\<close> refuses every path, one whose writes fail before the first byte,
  and one whose parser reports a syntax error. The sample file system holds one file
  at each of the paths used below.
\<close>

definition okPlatform :: "File \<Rightarrow> Platform" where
  "okPlatform tree =
     \<lparr>parser_ParseFile =
        (\<lambda>fs path. if fs path = None then Inl ''no such file'' else Inr tree),
      os_Create = (\<lambda>fs path. None),
      printer_Fprint = (\<lambda>t. ''package flatdata''),
      write_fault = (\<lambda>path bytes. None),
      filepath_Join = (\<lambda>dir name. dir @ ''/'' @ name)\<rparr>"

definition noCreatePlatform :: "File \<Rightarrow> Platform" where
  "noCreatePlatform tree =
     (okPlatform tree)\<lparr>os_Create := (\<lambda>fs path. Some ''permission denied'')\<rparr>"

definition noWritePlatform :: "File \<Rightarrow> Platform" where
  "noWritePlatform tree =
     (okPlatform tree)\<lparr>write_fault := (\<lambda>path bytes. Some (0, ''no space left''))\<rparr>"

definition noParsePlatform :: Platform where
  "noParsePlatform =
     (okPlatform itemFile)\<lparr>parser_ParseFile := (\<lambda>fs path. Inl ''expected declaration'')\<rparr>"

definition sampleFiles :: files where
  "sampleFiles =
     [''out/Foo.go'' \<mapsto> ''package flatdata'', ''out/.go'' \<mapsto> ''package flatdata'',
      ''out/Helper.go'' \<mapsto> ''package flatdata'']"

section \<open>Properties of the detector\<close>















lemmas sample_defs =
  vec3File_def rawImportFile_def rawImport_def
  itemFile_def tableOnlyFile_def importOnlyFile_def flatbuffersImport_def itemType_def
  patchedItemFile_def plainNameFile_def plainNameFunc_def localTypeFile_def helperFunc_def

lemmas walk_simps = Inspect.simps subtree.simps optNode_def identNodes_def





section \<open>Properties of the patch step\<close>

subsection \<open>The guard\<close>

lemma hasNameMethod_func_True: "snd (hasNameMethod_func n True) = True"
  by (cases "(n, True)" rule: hasNameMethod_func.cases) auto

lemma fold_keeps_True:
  assumes "\<And>c. c \<in> set cs \<Longrightarrow> g c True = True"
  shows "fold g cs True = True"
  using assms by (induction cs) auto

lemma Inspect_hasNameMethod_func_True: "Inspect hasNameMethod_func n True = True"
proof (induction "hasNameMethod_func" n "True" rule: Inspect.induct)
  case (1 n)
  have "fst (hasNameMethod_func n True) \<Longrightarrow>
          fold (Inspect hasNameMethod_func) (children n) True = True"
    by (rule fold_keeps_True) (use 1 in auto)
  then show ?case
    by (subst Inspect.simps) (simp add: hasNameMethod_func_True)
qed

lemma fold_reaches_True:
  assumes "c \<in> set cs" and "\<And>z. g c z = True" and "\<And>c. g c True = True"
  shows "fold g cs s = True"
  using assms
proof (induction cs arbitrary: s)
  case Nil
  then show ?case by simp
next
  case (Cons a cs)
  show ?case
  proof (cases "a = c")
    case True
    with Cons.prems show ?thesis by (simp add: fold_keeps_True)
  next
    case False
    with Cons show ?thesis by simp
  qed
qed

lemma Inspect_hasNameMethod_func_Name:
  "isNameFunc d \<Longrightarrow> Inspect hasNameMethod_func (NodeDecl d) z = True"
  by (cases d) (simp_all add: Inspect.simps)

lemma hasNameMethod_top_level:
  assumes "d \<in> set (Decls tree)" and "isNameFunc d"
  shows "hasNameMethod tree"
proof -
  have "fold (Inspect hasNameMethod_func) (children (NodeFile tree)) False = True"
  proof (rule fold_reaches_True [where c = "NodeDecl d"])
    show "NodeDecl d \<in> set (children (NodeFile tree))" using assms(1) by simp
  qed (simp_all add: Inspect_hasNameMethod_func_Name [OF assms(2)]
         Inspect_hasNameMethod_func_True)
  then show ?thesis
    by (simp add: hasNameMethod_def Inspect.simps [of _ "NodeFile tree"])
qed

subsection \<open>What the walk appends\<close>

lemma patchAST_range_eq:
  "patchAST_range specs tree =
     tree\<lparr>Decls := Decls tree @ map funcDecl (structTypeNames specs)\<rparr>"
  by (induction specs tree rule: patchAST_range.induct) simp_all

lemma patchAST_func_eq:
  "patchAST_func n tree =
     (True, tree\<lparr>Decls := Decls tree @ map funcDecl (typeDeclNames n)\<rparr>)"
  by (cases "(n, tree)" rule: patchAST_func.cases) (simp_all add: patchAST_range_eq)

lemma fold_appends:
  assumes "\<And>c t. c \<in> set cs \<Longrightarrow> g c t = t\<lparr>Decls := Decls t @ map funcDecl (h c)\<rparr>"
  shows "fold g cs (tree :: File) =
           tree\<lparr>Decls := Decls tree @ map funcDecl (concat (map h cs))\<rparr>"
  using assms by (induction cs arbitrary: tree) auto

lemma concat_map_concat:
  "concat (map (\<lambda>x. concat (map f (g x))) xs) = concat (map f (concat (map g xs)))"
  by (induction xs) auto

lemma allStructTypeNames_unfold:
  "allStructTypeNames n = typeDeclNames n @ concat (map allStructTypeNames (children n))"
  unfolding allStructTypeNames_def
  by (subst subtree.simps) (simp add: concat_map_concat)

lemma Inspect_patchAST_func:
  "Inspect patchAST_func n tree =
     tree\<lparr>Decls := Decls tree @ map funcDecl (allStructTypeNames n)\<rparr>"
proof (induction "patchAST_func" n tree rule: Inspect.induct)
  case (1 n tree)
  have "fold (Inspect patchAST_func) (children n) t
          = t\<lparr>Decls := Decls t @
                map funcDecl (concat (map allStructTypeNames (children n)))\<rparr>" for t
    by (rule fold_appends) (use 1 in \<open>auto simp: patchAST_func_eq\<close>)
  then show ?case
    by (subst Inspect.simps, subst allStructTypeNames_unfold) (simp add: patchAST_func_eq)
qed

text \<open>
  Without a function named \<open>Name\<close> in the way, the patch step appends one declaration
  for each struct type spec that the walk meets, wherever it is in the tree.
\<close>

lemma patchAST_appends:
  "\<not> hasNameMethod tree \<Longrightarrow>
     patchAST tree =
       (None, tree\<lparr>Decls := Decls tree @ map funcDecl (allStructTypeNames (NodeFile tree))\<rparr>)"
  by (simp add: patchAST_def Inspect_patchAST_func)

text \<open>
  When every struct type spec of the tree is in a top-level declaration, these are the
  accessors of the top-level struct types, one each, in the order of the declarations.
\<close>

lemma patchAST_top_level_types:
  assumes "\<not> hasNameMethod tree"
    and "allStructTypeNames (NodeFile tree) = topLevelStructTypeNames tree"
  shows "patchAST tree =
           (None, tree\<lparr>Decls := Decls tree @ map funcDecl (topLevelStructTypeNames tree)\<rparr>)"
  using assms by (simp add: patchAST_appends)

lemma patchAST_guarded: "hasNameMethod tree \<Longrightarrow> patchAST tree = (None, tree)"
  by (simp add: patchAST_def)

lemma isNameFunc_funcDecl: "isNameFunc (funcDecl name)"
  by (simp add: funcDecl_def)

lemma patchAST_twice: "patchAST (snd (patchAST tree)) = patchAST tree"
proof (cases "hasNameMethod tree")
  case True
  then show ?thesis by (simp add: patchAST_guarded)
next
  case False
  show ?thesis
  proof (cases "allStructTypeNames (NodeFile tree)")
    case Nil
    with False show ?thesis by (simp add: patchAST_appends)
  next
    case (Cons name names)
    let ?tree' = "tree\<lparr>Decls := Decls tree @ map funcDecl (name # names)\<rparr>"
    have "hasNameMethod ?tree'"
      by (rule hasNameMethod_top_level [where d = "funcDecl name"])
         (simp_all add: isNameFunc_funcDecl)
    with False Cons show ?thesis by (simp add: patchAST_appends patchAST_guarded)
  qed
qed

lemma hasNameMethod_itemFile: "\<not> hasNameMethod itemFile"
  by (simp add: hasNameMethod_def sample_defs walk_simps)

lemma allStructTypeNames_itemFile: "allStructTypeNames (NodeFile itemFile) = [''Item'']"
  by (simp add: allStructTypeNames_def sample_defs walk_simps)

lemma patchAST_itemFile: "patchAST itemFile = (None, patchedItemFile)"
  by (simp add: patchAST_appends hasNameMethod_itemFile allStructTypeNames_itemFile
        patchedItemFile_def)

text \<open>
  C3. The patch step is idempotent at file granularity. If the tree has a function
  declaration named \<open>Name\<close> among its declarations, the patch step returns the tree as
  it is; and for every tree, patching the tree that a first patch returned gives that
  same tree again, so no accessor is added twice.
\<close>

theorem patchAST_idempotent:
  "(list_ex isNameFunc (Decls tree) \<longrightarrow> patchAST tree = (None, tree))
   \<and> patchAST (snd (patchAST tree)) = patchAST tree"
proof
  show "list_ex isNameFunc (Decls tree) \<longrightarrow> patchAST tree = (None, tree)"
    by (auto simp: list_ex_iff intro: patchAST_guarded hasNameMethod_top_level)
  show "patchAST (snd (patchAST tree)) = patchAST tree"
    by (rule patchAST_twice)
qed

theorem patchAST_idempotent_witness:
  "list_ex isNameFunc (Decls patchedItemFile)
   \<and> patchAST patchedItemFile = (None, patchedItemFile)
   \<and> patchAST itemFile = (None, patchedItemFile)
   \<and> patchAST (snd (patchAST itemFile)) = (None, patchedItemFile)"
  using patchAST_idempotent [of patchedItemFile] patchAST_idempotent [of itemFile]
  by (simp add: patchAST_itemFile) (simp add: patchedItemFile_def funcDecl_def)

text \<open>
  C9. The guard matches every top-level function declaration named \<open>Name\<close>, whatever
  its receiver, and so also a plain function without a receiver: for a tree with such a
  declaration the guard holds and the patch step returns the tree as it is, with no
  accessor for any of its struct types.
\<close>

theorem Name_function_skips_patch:
  assumes "FuncDecl recv ''Name'' ft body \<in> set (Decls tree)"
  shows "hasNameMethod tree \<and> patchAST tree = (None, tree)"
proof -
  have "hasNameMethod tree"
    by (rule hasNameMethod_top_level [OF assms]) simp
  then show ?thesis by (simp add: patchAST_guarded)
qed

theorem Name_function_skips_patch_witness:
  "plainNameFunc \<in> set (Decls plainNameFile)
   \<and> topLevelStructTypeNames plainNameFile = [''Item'']
   \<and> hasNameMethod plainNameFile
   \<and> patchAST plainNameFile = (None, plainNameFile)"
proof -
  have mem: "FuncDecl None ''Name''
               (FuncType None (Some (FieldList []))
                  (Some (FieldList [Field [] (Some (Ident ''string'')) None])))
               (Some (BlockStmt [ReturnStmt [BasicLit ([CHR 0x22] @ ''x'' @ [CHR 0x22])]]))
             \<in> set (Decls plainNameFile)"
    by (simp add: plainNameFile_def plainNameFunc_def)
  have names: "topLevelStructTypeNames plainNameFile = [''Item'']"
    by (simp add: topLevelStructTypeNames_def sample_defs)
  show ?thesis
    using Name_function_skips_patch [OF mem] mem names
    by (simp add: plainNameFunc_def)
qed

text \<open>
  C4. The patch step on a file whose only top-level struct type is \<open>Item\<close> and whose
  function \<open>helper\<close> declares a struct type \<open>Item\<close> in its body: no function is named
  \<open>Name\<close>, and the walk enters the function body, so two accessors with the receiver
  \<open>*Item\<close> are appended at the end of the declarations, one for the top-level type and
  one for the local type.
\<close>

theorem patchAST_localTypeFile:
  "\<not> hasNameMethod localTypeFile
   \<and> topLevelStructTypeNames localTypeFile = [''Item'']
   \<and> patchAST localTypeFile =
       (None, localTypeFile\<lparr>Decls := Decls localTypeFile @ [funcDecl ''Item'', funcDecl ''Item'']\<rparr>)"
proof -
  have guard: "\<not> hasNameMethod localTypeFile"
    by (simp add: hasNameMethod_def sample_defs walk_simps)
  have names: "allStructTypeNames (NodeFile localTypeFile) = [''Item'', ''Item'']"
    by (simp add: allStructTypeNames_def sample_defs walk_simps)
  have top: "topLevelStructTypeNames localTypeFile = [''Item'']"
    by (simp add: topLevelStructTypeNames_def sample_defs)
  show ?thesis
    using guard top by (simp add: patchAST_appends names)
qed

section \<open>Properties of processing a file\<close>

lemmas platform_defs =
  okPlatform_def noCreatePlatform_def noWritePlatform_def noParsePlatform_def sampleFiles_def

lemmas path_defs = TrimSuffix_def HasSuffix_def Base_def IsPathSeparator_def Extension_def

lemma isFlatBufferFile_itemFile: "isFlatBufferFile itemFile"
  by (simp add: isFlatBufferFile_def hasFlatBuffersImport_def usesFlatBuffersTable_def
        sample_defs walk_simps Trim_def)

lemma isFlatBufferFile_tableOnlyFile: "\<not> isFlatBufferFile tableOnlyFile"
  by (simp add: isFlatBufferFile_def hasFlatBuffersImport_def sample_defs)

text \<open>
  The state of the receiver's list after \<open>ProcessFile\<close> on a file that the detector
  accepts, whatever happens after the detection.
\<close>

lemma ProcessFile_appends:
  assumes "parser_ParseFile pf fs filePath = Inr tree" and "isFlatBufferFile tree"
  shows "flatbuffers (fst (snd (ProcessFile pf filePath (p, fs))))
           = flatbuffers p @ [TrimSuffix (Base filePath) Extension]"
  using assms
  by (simp add: ProcessFile_def Let_def split: prod.splits option.splits)

text \<open>
  C2, as the code has it. For a file that the detector accepts, the name recorded in the
  processor's list is the last element of the file's path without the suffix \<open>.go\<close>:
  it is taken from the file name, whatever types the file declares.
\<close>

theorem ProcessFile_records_file_name:
  assumes "parser_ParseFile pf fs filePath = Inr tree" and "isFlatBufferFile tree"
  shows "flatbuffers (fst (snd (ProcessFile pf filePath (p, fs))))
           = flatbuffers p @ [TrimSuffix (Base filePath) ''.go'']"
  using ProcessFile_appends [OF assms] by (simp add: Extension_def)

theorem ProcessFile_records_file_name_witness:
  "parser_ParseFile (okPlatform itemFile) sampleFiles ''out/Foo.go'' = Inr itemFile
   \<and> isFlatBufferFile itemFile
   \<and> flatbuffers (fst (snd (ProcessFile (okPlatform itemFile) ''out/Foo.go''
        (NewGoProcessor, sampleFiles)))) = [''Foo'']"
proof -
  have parsed: "parser_ParseFile (okPlatform itemFile) sampleFiles ''out/Foo.go'' = Inr itemFile"
    by (simp add: platform_defs)
  show ?thesis
    using ProcessFile_records_file_name [OF parsed isFlatBufferFile_itemFile, of NewGoProcessor]
      parsed isFlatBufferFile_itemFile
    by (simp add: NewGoProcessor_def path_defs)
qed

text \<open>
  C2, as the claim has it, fails. \<open>out/Foo.go\<close> declares the one type \<open>Item\<close>, and the
  name recorded for it is \<open>Foo\<close>, which the file does not declare; for the path
  \<open>out/.go\<close> the recorded name is empty, which is not an identifier.
\<close>

theorem ProcessFile_name_not_from_types:
  "isFlatBufferFile itemFile
   \<and> allStructTypeNames (NodeFile itemFile) = [''Item'']
   \<and> flatbuffers (fst (snd (ProcessFile (okPlatform itemFile) ''out/Foo.go''
        (NewGoProcessor, sampleFiles)))) = [''Foo'']
   \<and> flatbuffers (fst (snd (ProcessFile (okPlatform itemFile) ''out/.go''
        (NewGoProcessor, sampleFiles)))) = [[]]"
proof -
  have "parser_ParseFile (okPlatform itemFile) sampleFiles ''out/Foo.go'' = Inr itemFile"
    and "parser_ParseFile (okPlatform itemFile) sampleFiles ''out/.go'' = Inr itemFile"
    by (simp_all add: platform_defs)
  then show ?thesis
    by (simp add: ProcessFile_appends isFlatBufferFile_itemFile allStructTypeNames_itemFile
          NewGoProcessor_def path_defs)
qed

text \<open>
  C6. When the parser returns a tree and the detector rejects it, \<open>ProcessFile\<close> returns
  the sentinel \<open>ErrFlatBuffersNotImported\<close> and leaves the file system and the
  processor's list as they were, so the file is not rewritten and its name is not
  recorded. In every other case the error returned, if any, is not the sentinel: it is
  one of the parse, patch, create and print errors.
\<close>

theorem ProcessFile_sentinel:
  "(rejected pf fs filePath \<longrightarrow>
      ProcessFile pf filePath (p, fs) = (Some ErrFlatBuffersNotImported, p, fs))
   \<and> (\<not> rejected pf fs filePath \<longrightarrow>
      fst (ProcessFile pf filePath (p, fs)) \<noteq> Some ErrFlatBuffersNotImported)"
  by (auto simp: rejected_def ProcessFile_def Let_def split: sum.splits prod.splits option.splits)

theorem ProcessFile_sentinel_witness:
  "rejected (okPlatform tableOnlyFile) sampleFiles ''out/Helper.go''
   \<and> ProcessFile (okPlatform tableOnlyFile) ''out/Helper.go'' (NewGoProcessor, sampleFiles)
       = (Some ErrFlatBuffersNotImported, NewGoProcessor, sampleFiles)
   \<and> \<not> rejected noParsePlatform sampleFiles ''out/Helper.go''
   \<and> fst (ProcessFile noParsePlatform ''out/Helper.go'' (NewGoProcessor, sampleFiles))
       \<noteq> Some ErrFlatBuffersNotImported"
  using ProcessFile_sentinel [of "okPlatform tableOnlyFile" sampleFiles "''out/Helper.go''"
          NewGoProcessor]
        ProcessFile_sentinel [of noParsePlatform sampleFiles "''out/Helper.go''" NewGoProcessor]
  by (simp add: rejected_def platform_defs isFlatBufferFile_tableOnlyFile)

text \<open>
  C10. The name is appended right after the detection succeeds, before the patch step,
  the creation of the file and the printing. So whenever \<open>ProcessFile\<close> returns an error
  for a file that the detector accepted, the error is a patch, create or print error and
  the name is in the list all the same: nothing takes it out again.
\<close>

theorem ProcessFile_name_stays_on_failure:
  assumes "parser_ParseFile pf fs filePath = Inr tree" and "isFlatBufferFile tree"
    and "ProcessFile pf filePath (p, fs) = (Some err, p', fs')"
  shows "flatbuffers p' = flatbuffers p @ [TrimSuffix (Base filePath) Extension]
         \<and> (\<exists>msg. err = FailedToPatchAST msg \<or> err = FailedToCreateFile msg
                  \<or> err = FailedToPrintAST msg)"
  using assms
  by (auto simp: ProcessFile_def Let_def split: prod.splits option.splits)

theorem ProcessFile_name_stays_on_failure_witness:
  "parser_ParseFile (noCreatePlatform itemFile) sampleFiles ''out/Foo.go'' = Inr itemFile
   \<and> isFlatBufferFile itemFile
   \<and> ProcessFile (noCreatePlatform itemFile) ''out/Foo.go'' (NewGoProcessor, sampleFiles)
       = (Some (FailedToCreateFile ''permission denied''), \<lparr>flatbuffers = [''Foo'']\<rparr>, sampleFiles)
   \<and> fst (ProcessFile (noWritePlatform itemFile) ''out/Foo.go'' (NewGoProcessor, sampleFiles))
       = Some (FailedToPrintAST ''no space left'')
   \<and> flatbuffers (fst (snd (ProcessFile (noWritePlatform itemFile) ''out/Foo.go''
        (NewGoProcessor, sampleFiles)))) = [''Foo'']"
proof -
  have parsed:
    "parser_ParseFile (noCreatePlatform itemFile) sampleFiles ''out/Foo.go'' = Inr itemFile"
    by (simp add: platform_defs)
  have run:
    "ProcessFile (noCreatePlatform itemFile) ''out/Foo.go'' (NewGoProcessor, sampleFiles)
       = (Some (FailedToCreateFile ''permission denied''),
          NewGoProcessor\<lparr>flatbuffers := [TrimSuffix (Base ''out/Foo.go'') Extension]\<rparr>,
          sampleFiles)"
    by (simp add: ProcessFile_def isFlatBufferFile_itemFile patchAST_itemFile
          NewGoProcessor_def platform_defs)
  have parsed':
    "parser_ParseFile (noWritePlatform itemFile) sampleFiles ''out/Foo.go'' = Inr itemFile"
    by (simp add: platform_defs)
  have run':
    "fst (ProcessFile (noWritePlatform itemFile) ''out/Foo.go'' (NewGoProcessor, sampleFiles))
       = Some (FailedToPrintAST ''no space left'')"
    by (simp add: ProcessFile_def isFlatBufferFile_itemFile patchAST_itemFile write_file_def
          NewGoProcessor_def platform_defs)
  show ?thesis
    using ProcessFile_name_stays_on_failure [OF parsed isFlatBufferFile_itemFile run]
      parsed run run' isFlatBufferFile_itemFile
      ProcessFile_appends [OF parsed' isFlatBufferFile_itemFile, of NewGoProcessor]
    by (simp add: NewGoProcessor_def path_defs)
qed

section \<open>Properties of the registry\<close>

lemma sort_mset_eq: "mset xs = mset ys \<Longrightarrow> sort xs = sort (ys :: string list)"
  by (rule properties_for_sort) simp_all

lemma PostProcess_result:
  "PostProcess pf outputDir (p, fs) =
     (let path = filepath_Join pf outputDir FlatDataHelperFileName;
          p1 = p\<lparr>flatbuffers := sort (flatbuffers p)\<rparr>
      in case os_Create pf fs path of
           Some osErr \<Rightarrow> (Some (FailedToCreateFile osErr), p, fs)
         | None \<Rightarrow>
             (case write_fault pf path (flatbufferCode (sort (flatbuffers p))) of
                None \<Rightarrow> (None, p1, fs(path \<mapsto> flatbufferCode (sort (flatbuffers p))))
              | Some (k, err) \<Rightarrow>
                  (Some (FailedToExecuteTemplate err), p1,
                   fs(path \<mapsto> take k (flatbufferCode (sort (flatbuffers p)))))))"
  by (simp add: PostProcess_def write_file_def Let_def split: option.splits prod.splits)

subsection \<open>The keys of the rendered text\<close>

lemma splitLines_not_Nil: "splitLines s \<noteq> []"
  by (induction s) (auto split: list.splits)

lemma splitLines_append_newline:
  "splitLines (xs @ CHR 0x0A # ys) = splitLines xs @ splitLines ys"
proof (induction xs)
  case Nil
  show ?case by simp
next
  case (Cons c xs)
  obtain line lines where "splitLines xs = line # lines"
    using splitLines_not_Nil [of xs] by (cases "splitLines xs") auto
  with Cons show ?case by simp
qed

lemma splitLines_one_line: "CHR 0x0A \<notin> set line \<Longrightarrow> splitLines line = [line]"
  by (induction line) auto

lemma entryKey_entryLine: "CHR 0x22 \<notin> set key \<Longrightarrow> entryKey (entryLine key) = Some key"
proof -
  assume key: "CHR 0x22 \<notin> set key"
  have "takeWhile (\<lambda>c. c \<noteq> CHR 0x22) (drop 2 (entryLine key)) = key"
    using key by (auto simp: entryLine_def takeWhile_tail)
  then show ?thesis by (simp add: entryKey_def)
qed

lemma entryLine_one_line: "CHR 0x0A \<notin> set key \<Longrightarrow> CHR 0x0A \<notin> set (entryLine key)"
  by (simp add: entryLine_def)

lemma flatbufferCode_entry_eq: "flatbufferCode_entry name = CHR 0x0A # entryLine name"
  by (simp add: flatbufferCode_entry_def entryLine_def)

lemma flatbufferCode_footer_eq:
  "flatbufferCode_footer = CHR 0x0A # tl flatbufferCode_footer"
  by (simp add: flatbufferCode_footer_def)

lemma header_keys: "List.map_filter entryKey (splitLines flatbufferCode_header) = []"
  by code_simp

lemma footer_keys: "List.map_filter entryKey (splitLines (tl flatbufferCode_footer)) = []"
  by code_simp

lemma entries_lines:
  assumes "plainNames names"
  shows "\<exists>rest. concat (map flatbufferCode_entry names) @ flatbufferCode_footer
                 = CHR 0x0A # rest
               \<and> splitLines rest
                 = map entryLine names @ splitLines (tl flatbufferCode_footer)"
  using assms
proof (induction names)
  case Nil
  have "flatbufferCode_footer = CHR 0x0A # tl flatbufferCode_footer
        \<and> splitLines (tl flatbufferCode_footer) = splitLines (tl flatbufferCode_footer)"
    using flatbufferCode_footer_eq by simp
  then show ?case by (intro exI [of _ "tl flatbufferCode_footer"]) simp
next
  case (Cons name names)
  then obtain rest where rest:
      "concat (map flatbufferCode_entry names) @ flatbufferCode_footer = CHR 0x0A # rest"
      "splitLines rest = map entryLine names @ splitLines (tl flatbufferCode_footer)"
    by (auto simp: plainNames_def)
  from Cons.prems have "CHR 0x0A \<notin> set (entryLine name)"
    by (simp add: plainNames_def entryLine_one_line)
  then have "splitLines (entryLine name @ CHR 0x0A # rest)
               = entryLine name # map entryLine names @ splitLines (tl flatbufferCode_footer)"
    by (simp add: splitLines_append_newline splitLines_one_line rest(2))
  moreover have "concat (map flatbufferCode_entry (name # names)) @ flatbufferCode_footer
                   = CHR 0x0A # entryLine name @ CHR 0x0A # rest"
    using rest(1) by (simp add: flatbufferCode_entry_eq [of name])
  ultimately show ?case
    by (intro exI [of _ "entryLine name @ CHR 0x0A # rest"]) simp
qed

lemma entry_keys: "plainNames names \<Longrightarrow> List.map_filter entryKey (map entryLine names) = names"
  by (induction names)
     (simp_all add: plainNames_def entryKey_entryLine)

lemma map_filter_append:
  "List.map_filter f (xs @ ys) = List.map_filter f xs @ List.map_filter f ys"
  by (simp add: List.map_filter_def)

text \<open>
  The keys of the text rendered for a list of names are the names, in their order.
\<close>

lemma registryKeys_flatbufferCode:
  assumes "plainNames names"
  shows "registryKeys (flatbufferCode names) = names"
proof -
  obtain rest where rest:
      "concat (map flatbufferCode_entry names) @ flatbufferCode_footer = CHR 0x0A # rest"
      "splitLines rest = map entryLine names @ splitLines (tl flatbufferCode_footer)"
    using entries_lines [OF assms] by blast
  have "flatbufferCode names = flatbufferCode_header @ CHR 0x0A # rest"
    using rest(1) by (simp add: flatbufferCode_def)
  then have "splitLines (flatbufferCode names)
               = splitLines flatbufferCode_header @ map entryLine names
                 @ splitLines (tl flatbufferCode_footer)"
    by (simp add: splitLines_append_newline rest(2))
  then show ?thesis
    by (simp add: registryKeys_def map_filter_append header_keys footer_keys
          entry_keys [OF assms])
qed

lemma plainNames_sort: "plainNames (sort names) = plainNames names"
  by (simp add: plainNames_def list_all_iff)

text \<open>
  C5. The registry file depends on the accumulated names only through their sorted
  order. Two runs whose lists hold the same names, in whatever order they were appended,
  end with the same error or success and the same file system. When the run succeeds
  the registry file holds the template's text for the sorted list; and when no name has
  a double quote or a newline in it, the keys of the map entries in that file, read in
  the order of its lines, are exactly the accumulated names in ascending order.
\<close>

theorem PostProcess_deterministic:
  assumes "mset (flatbuffers p) = mset (flatbuffers q)"
  shows "fst (PostProcess pf outputDir (p, fs)) = fst (PostProcess pf outputDir (q, fs))
         \<and> snd (snd (PostProcess pf outputDir (p, fs)))
             = snd (snd (PostProcess pf outputDir (q, fs)))
         \<and> (fst (PostProcess pf outputDir (p, fs)) = None \<longrightarrow>
              snd (snd (PostProcess pf outputDir (p, fs)))
                (filepath_Join pf outputDir FlatDataHelperFileName)
              = Some (flatbufferCode (sort (flatbuffers p))))
         \<and> (plainNames (flatbuffers p) \<longrightarrow>
              registryKeys (flatbufferCode (sort (flatbuffers p))) = sort (flatbuffers p)
              \<and> sorted (registryKeys (flatbufferCode (sort (flatbuffers p))))
              \<and> mset (registryKeys (flatbufferCode (sort (flatbuffers p))))
                  = mset (flatbuffers p))"
proof -
  have same: "sort (flatbuffers p) = sort (flatbuffers q)"
    by (rule sort_mset_eq [OF assms])
  have "fst (PostProcess pf outputDir (p, fs)) = fst (PostProcess pf outputDir (q, fs))
         \<and> snd (snd (PostProcess pf outputDir (p, fs)))
             = snd (snd (PostProcess pf outputDir (q, fs)))"
    unfolding PostProcess_result same
    by (simp add: Let_def split: option.splits prod.splits)
  moreover have "fst (PostProcess pf outputDir (p, fs)) = None \<longrightarrow>
              snd (snd (PostProcess pf outputDir (p, fs)))
                (filepath_Join pf outputDir FlatDataHelperFileName)
              = Some (flatbufferCode (sort (flatbuffers p)))"
    unfolding PostProcess_result
    by (simp add: Let_def split: option.splits prod.splits)
  moreover have "plainNames (flatbuffers p) \<longrightarrow>
              registryKeys (flatbufferCode (sort (flatbuffers p))) = sort (flatbuffers p)
              \<and> sorted (registryKeys (flatbufferCode (sort (flatbuffers p))))
              \<and> mset (registryKeys (flatbufferCode (sort (flatbuffers p))))
                  = mset (flatbuffers p)"
    by (simp add: registryKeys_flatbufferCode plainNames_sort)
  ultimately show ?thesis by blast
qed

theorem PostProcess_deterministic_witness:
  "mset (flatbuffers \<lparr>flatbuffers = [''Item'', ''Account'']\<rparr>)
     = mset (flatbuffers \<lparr>flatbuffers = [''Account'', ''Item'']\<rparr>)
   \<and> plainNames (flatbuffers \<lparr>flatbuffers = [''Item'', ''Account'']\<rparr>)
   \<and> PostProcess (okPlatform itemFile) ''out''
        (\<lparr>flatbuffers = [''Item'', ''Account'']\<rparr>, Map.empty)
      = (None, \<lparr>flatbuffers = [''Account'', ''Item'']\<rparr>,
         [''out/flatdatas_helper.go'' \<mapsto> flatbufferCode [''Account'', ''Item'']])
   \<and> snd (snd (PostProcess (okPlatform itemFile) ''out''
        (\<lparr>flatbuffers = [''Account'', ''Item'']\<rparr>, Map.empty)))
      = [''out/flatdatas_helper.go'' \<mapsto> flatbufferCode [''Account'', ''Item'']]
   \<and> registryKeys (flatbufferCode [''Account'', ''Item'']) = [''Account'', ''Item'']"
proof -
  have perm: "mset (flatbuffers \<lparr>flatbuffers = [''Item'', ''Account'']\<rparr>)
                = mset (flatbuffers \<lparr>flatbuffers = [''Account'', ''Item'']\<rparr>)"
    by (simp add: add_mset_commute)
  have plain: "plainNames (flatbuffers \<lparr>flatbuffers = [''Item'', ''Account'']\<rparr>)"
    by (simp add: plainNames_def)
  have run: "PostProcess (okPlatform itemFile) ''out''
               (\<lparr>flatbuffers = [''Item'', ''Account'']\<rparr>, Map.empty)
             = (None, \<lparr>flatbuffers = [''Account'', ''Item'']\<rparr>,
                [''out/flatdatas_helper.go'' \<mapsto> flatbufferCode [''Account'', ''Item'']])"
    by (simp add: PostProcess_result okPlatform_def FlatDataHelperFileName_def)
  have sorted_names: "sort [''Item'', ''Account''] = [''Account'', ''Item'']"
    by simp
  show ?thesis
    using PostProcess_deterministic [OF perm, of "okPlatform itemFile" "''out''" Map.empty]
      perm plain run sorted_names
    by simp
qed

text \<open>
  The text rendered for the one name \<open>Item\<close>, byte by byte.
\<close>

lemma flatbufferCode_Item:
  "flatbufferCode [''Item''] =
     ''package flatdata'' @ [CHR 0x0A, CHR 0x0A] @
     ''import ('' @ [CHR 0x0A, CHR 0x09] @ [CHR 0x22] @ ''reflect'' @ [CHR 0x22, CHR 0x0A] @
     '')'' @ [CHR 0x0A, CHR 0x0A] @
     ''var fbs = map[string]reflect.Type{'' @ [CHR 0x0A, CHR 0x09] @
     [CHR 0x22] @ ''Item'' @ [CHR 0x22] @ '': reflect.TypeOf((*Item)(nil)).Elem(),'' @
     [CHR 0x0A] @ ''}'' @ [CHR 0x0A, CHR 0x0A] @
     ''func GetFlatDataByName(name string) any {'' @ [CHR 0x0A, CHR 0x09] @
     ''if data, ok := fbs[name]; ok {'' @ [CHR 0x0A, CHR 0x09, CHR 0x09] @
     ''return reflect.New(data).Interface()'' @ [CHR 0x0A, CHR 0x09] @
     ''}'' @ [CHR 0x0A, CHR 0x09] @
     ''return nil'' @ [CHR 0x0A] @
     ''}'' @ [CHR 0x0A]"
  by (simp add: flatbufferCode_def flatbufferCode_header_def flatbufferCode_entry_def
        flatbufferCode_footer_def)

end
